theory Spec2Isabelle
  imports Complex_Main
begin

section \<open>Data model (models.py)\<close>

text \<open>
  Python \<open>str\<close> values are modelled as \<open>string\<close>; a character outside ASCII stands
  for the bytes of its UTF-8 encoding. Optional fields are \<open>option\<close> values with
  \<open>None\<close> for Python's \<open>None\<close>. A field whose name is taken by Isabelle or by an
  earlier record is renamed: \<open>step_value\<close> and \<open>obstacle_type\<close> for \<open>value\<close> and
  \<open>type\<close>, and the prefixes \<open>dp\<close>, \<open>rs\<close>, \<open>gs\<close> and \<open>er\<close> in the records
  of decision points, repeatability scores, generated scripts and execution results. A
  Python \<open>float\<close> is modelled by the rational number it denotes.
\<close>

record ExecutionStep =
  step_number :: int
  action :: string
  target :: "string option"
  step_value :: "string option"
  timestamp :: "string option"
  screenshot :: "string option"

record Obstacle =
  obstacle_type :: string
  likelihood :: rat
  handling_strategy :: string
  detected_at_step :: "int option"

record DecisionPoint =
  dp_step_number :: int
  question :: string
  decision :: string
  reasoning :: string
  alternatives :: "string list"

text \<open>
  \<open>ExplorationResult\<close>: the fields \<open>page_structure\<close> and \<open>repeatability_score\<close>
  are read by none of the functions below and are left out.
\<close>

record ExplorationResult =
  success :: bool
  journey_log :: "ExecutionStep list"
  obstacles :: "Obstacle list"
  decisions :: "DecisionPoint list"
  final_result :: "string option"
  error :: "string option"

record RepeatabilityScore =
  score :: int
  is_repeatable :: bool
  confidence :: rat
  recommendation :: string
  rs_reasoning :: string
  deterministic_steps :: bool
  predictable_obstacles :: bool
  rule_based_decisions :: bool
  stable_dom :: bool

section \<open>Python primitives used by the analyzer\<close>

text \<open>\<open>sep.join(parts)\<close>.\<close>

fun join :: "string \<Rightarrow> string list \<Rightarrow> string" where
  "join sep [] = []"
| "join sep [x] = x"
| "join sep (x # y # ys) = x @ sep @ join sep (y # ys)"

text \<open>\<open>text.startswith(k)\<close> and the substring test \<open>k in text\<close>.\<close>

fun starts_with :: "string \<Rightarrow> string \<Rightarrow> bool" where
  "starts_with [] text = True"
| "starts_with (k # ks) [] = False"
| "starts_with (k # ks) (c # cs) = (k = c \<and> starts_with ks cs)"

fun str_contains :: "string \<Rightarrow> string \<Rightarrow> bool" where
  "str_contains k [] = (k = [])"
| "str_contains k (c # cs) = (starts_with k (c # cs) \<or> str_contains k cs)"

text \<open>
  \<open>str.lower()\<close> on the ASCII letters; every other character is kept. (Python also
  lowers letters outside ASCII; no statement below depends on what \<open>lower\<close> returns.)
\<close>

definition char_lower :: "char \<Rightarrow> char" where
  "char_lower c =
     (let n = (of_char c :: nat) in if 65 \<le> n \<and> n \<le> 90 then char_of (n + 32) else c)"

definition lower :: "string \<Rightarrow> string" where
  "lower s = map char_lower s"

subsection \<open>The double-precision product \<open>n * 0.7\<close>\<close>

text \<open>
  The literal \<open>0.7\<close> is the double \<open>6305039478318694 / 2^53\<close>. In \<open>n * 0.7\<close> Python
  converts the integer \<open>n\<close> to a double and multiplies, each time rounding the exact
  value to 53 significant bits, ties to even. A double is represented here by the
  natural number \<open>k\<close> with value \<open>k / 2^53\<close>; overflow to infinity (lengths beyond
  \<open>10^308\<close>) is not modelled.
\<close>

fun bit_length :: "nat \<Rightarrow> nat" where
  "bit_length n = (if n = 0 then 0 else Suc (bit_length (n div 2)))"

declare bit_length.simps [simp del]

definition round_to_53 :: "nat \<Rightarrow> nat" where
  "round_to_53 p =
     (let b = bit_length p in
      if b \<le> 53 then p
      else
        let s = b - 53;
            q = p div 2 ^ s;
            r = p mod 2 ^ s;
            half = 2 ^ (s - 1);
            q' = (if r > half \<or> (r = half \<and> q mod 2 = 1) then q + 1 else q)
        in q' * 2 ^ s)"

definition double_0_7_mantissa :: nat where
  "double_0_7_mantissa = 6305039478318694"

definition float_0_7 :: rat where
  "float_0_7 = of_nat double_0_7_mantissa / 2 ^ 53"

text \<open>\<open>n * 0.7\<close> as a multiple of \<open>2^-53\<close>.\<close>

definition times_0_7 :: "nat \<Rightarrow> nat" where
  "times_0_7 n = round_to_53 (round_to_53 n * double_0_7_mantissa)"

text \<open>\<open>u > n * 0.7\<close>: Python compares an integer with a double exactly.\<close>

definition exceeds_times_0_7 :: "nat \<Rightarrow> nat \<Rightarrow> bool" where
  "exceeds_times_0_7 u n = (u * 2 ^ 53 > times_0_7 n)"

section \<open>Repeatability analyzer (repeatability_analyzer.py)\<close>

definition common_patterns :: "string list" where
  "common_patterns = [''navigate'', ''click'', ''type'', ''extract'']"

definition are_steps_deterministic :: "ExecutionStep list \<Rightarrow> bool" where
  "are_steps_deterministic steps =
     (if length steps = 0 then False
      else
        let action_types = map action steps;
            unique_actions = remdups action_types
        in if exceeds_times_0_7 (length unique_actions) (length action_types) then False
           else list_ex (\<lambda>a. a \<in> set action_types) common_patterns)"

definition unpredictable_types :: "string list" where
  "unpredictable_types = [''captcha'', ''random_redirect'', ''bot_detection'']"

definition are_obstacles_predictable :: "Obstacle list \<Rightarrow> bool" where
  "are_obstacles_predictable obs =
     (if length obs = 0 then True
      else
        let predictable = list_all (\<lambda>ob. likelihood ob > float_0_7) obs;
            has_unpredictable =
              list_ex (\<lambda>ob. obstacle_type ob \<in> set unpredictable_types) obs
        in predictable \<and> \<not> has_unpredictable)"

definition interpretation_keywords :: "string list" where
  "interpretation_keywords =
     [''relevant'', ''best'', ''most'', ''summarize'', ''analyze'',
      ''determine'', ''evaluate'', ''assess'', ''judge'']"

definition requires_interpretation :: "DecisionPoint list \<Rightarrow> bool" where
  "requires_interpretation ds =
     list_ex (\<lambda>d. list_ex (\<lambda>keyword. str_contains keyword (lower (question d)))
                    interpretation_keywords) ds"

definition are_decisions_rule_based :: "DecisionPoint list \<Rightarrow> bool" where
  "are_decisions_rule_based ds =
     (if length ds = 0 then True
      else if length ds > 5 then False
      else \<not> requires_interpretation ds)"

definition is_dom_stable :: "ExplorationResult \<Rightarrow> bool" where
  "is_dom_stable exploration =
     (if success exploration \<and> length (journey_log exploration) < 30 then True else False)"

definition has_dynamic_content :: "ExplorationResult \<Rightarrow> bool" where
  "has_dynamic_content exploration =
     (let has_many_steps = length (journey_log exploration) > 20;
          has_many_decisions = length (decisions exploration) > 3
      in has_many_steps \<or> has_many_decisions)"

definition get_recommendation :: "int \<Rightarrow> string" where
  "get_recommendation s =
     (if s \<ge> 7 then ''SCRIPT''
      else if s \<ge> 3 then ''HYBRID''
      else ''BROWSER_USE'')"

text \<open>Python's \<open>min(a, b)\<close>: \<open>a\<close> unless \<open>b < a\<close>.\<close>

definition py_min :: "rat \<Rightarrow> rat \<Rightarrow> rat" where
  "py_min a b = (if b < a then b else a)"

text \<open>The marks U+2713 and U+2717 of the reasoning lines, in UTF-8.\<close>

definition check_mark :: string where
  "check_mark = [char_of (0xE2::nat), char_of (0x9C::nat), char_of (0x93::nat)]"

definition cross_mark :: string where
  "cross_mark = [char_of (0xE2::nat), char_of (0x9C::nat), char_of (0x97::nat)]"

text \<open>The ten reasoning lines of \<open>analyze\<close>.\<close>

definition steps_deterministic_line :: string where
  "steps_deterministic_line = check_mark @ '' Steps are deterministic and predictable''"

definition steps_vary_line :: string where
  "steps_vary_line = cross_mark @ '' Steps vary or require interpretation''"

definition obstacles_predictable_line :: string where
  "obstacles_predictable_line = check_mark @ '' Obstacles are predictable''"

definition obstacles_unpredictable_line :: string where
  "obstacles_unpredictable_line = cross_mark @ '' Obstacles are unpredictable''"

definition decisions_rules_line :: string where
  "decisions_rules_line = check_mark @ '' Decisions follow clear rules''"

definition decisions_llm_line :: string where
  "decisions_llm_line = cross_mark @ '' Decisions require LLM interpretation''"

definition dom_stable_line :: string where
  "dom_stable_line = check_mark @ '' DOM structure appears stable''"

definition dom_dynamic_line :: string where
  "dom_dynamic_line = cross_mark @ '' DOM structure may be dynamic''"

definition content_dynamic_line :: string where
  "content_dynamic_line = cross_mark @ '' Contains dynamic content''"

definition content_static_line :: string where
  "content_static_line = check_mark @ '' Content appears static''"

text \<open>
  \<open>analyze\<close> threads the running score and the list of reasoning lines through the
  five checks in the order of the source. \<open>abs(score) / 10\<close> is Python's true division:
  the double nearest to the exact quotient, here the quotient itself.
\<close>

definition analyze :: "ExplorationResult \<Rightarrow> RepeatabilityScore" where
  "analyze exploration =
     (let s0 = (0::int);
          parts0 = ([]::string list);
          deterministic = are_steps_deterministic (journey_log exploration);
          (s1, parts1) =
            (if deterministic
             then (s0 + 3, parts0 @ [steps_deterministic_line])
             else (s0, parts0 @ [steps_vary_line]));
          predictable = are_obstacles_predictable (obstacles exploration);
          (s2, parts2) =
            (if predictable
             then (s1 + 2, parts1 @ [obstacles_predictable_line])
             else (s1, parts1 @ [obstacles_unpredictable_line]));
          rule_based = are_decisions_rule_based (decisions exploration);
          (s3, parts3) =
            (if rule_based
             then (s2 + 2, parts2 @ [decisions_rules_line])
             else (s2 - 3, parts2 @ [decisions_llm_line]));
          stable = is_dom_stable exploration;
          (s4, parts4) =
            (if stable
             then (s3 + 2, parts3 @ [dom_stable_line])
             else (s3, parts3 @ [dom_dynamic_line]));
          has_dynamic = has_dynamic_content exploration;
          (s5, parts5) =
            (if has_dynamic
             then (s4 - 2, parts4 @ [content_dynamic_line])
             else (s4, parts4 @ [content_static_line]));
          rec = get_recommendation s5;
          repeatable = (s5 \<ge> 5);
          conf = py_min (of_int \<bar>s5\<bar> / 10) 1
      in \<lparr> score = s5,
           is_repeatable = repeatable,
           confidence = conf,
           recommendation = rec,
           rs_reasoning = join [CHR 0x0A] parts5,
           deterministic_steps = deterministic,
           predictable_obstacles = predictable,
           rule_based_decisions = rule_based,
           stable_dom = stable \<rparr>)"

section \<open>Script generator (script_generator.py)\<close>

record GeneratedScript =
  code :: string
  language :: string
  dependencies :: "string list"
  test_status :: "string option"
  gs_script_path :: "string option"

text \<open>The line feed, the single quote and the double quote.\<close>

definition nl :: string where
  "nl = [CHR 0x0A]"

definition sq :: string where
  "sq = [CHR 0x27]"

definition dq :: string where
  "dq = [CHR 0x22]"

text \<open>The decimal digits of \<open>i\<close>, as an f-string renders an integer.\<close>

fun str_of_nat :: "nat \<Rightarrow> string" where
  "str_of_nat n =
     (if n < 10 then [char_of (48 + n)]
      else str_of_nat (n div 10) @ [char_of (48 + n mod 10)])"

declare str_of_nat.simps [simp del]

text \<open>
  \<open>x or default\<close> for an optional string \<open>x\<close>: \<open>None\<close> and the empty string are
  falsy. In \<open>step.value or step.target\<close> the target may be \<open>None\<close>, which the f-string
  renders as the text \<open>None\<close>.
\<close>

definition str_or :: "string option \<Rightarrow> string \<Rightarrow> string" where
  "str_or x d = (case x of None \<Rightarrow> d | Some s \<Rightarrow> if s = [] then d else s)"

definition value_or_target :: "ExecutionStep \<Rightarrow> string" where
  "value_or_target step =
     (let t = (case target step of None \<Rightarrow> ''None'' | Some s \<Rightarrow> s)
      in case step_value step of None \<Rightarrow> t | Some v \<Rightarrow> if v = [] then t else v)"

definition cookie_banner_handler :: string where
  "cookie_banner_handler =
     nl @ ''            # Handle cookie banner'' @ nl @ ''            try:'' @ nl
       @ ''                print('' @ dq @ [CHR 0xF0, CHR 0x9F, CHR 0x8D, CHR 0xAA]
       @ '' Handling cookie banner...'' @ dq @ '')'' @ nl
       @ ''                await page.click('' @ sq @ ''button:has-text('' @ dq @ ''Accept''
       @ dq @ ''), button:has-text('' @ dq @ [CHR 0xC4, CHR 0x90, CHR 0xE1, CHR 0xBB, CHR 0x93]
       @ ''ng '' @ [CHR 0xC3, CHR 0xBD] @ dq @ ''), button:has-text('' @ dq
       @ [CHR 0xE5, CHR 0x90, CHR 0x8C, CHR 0xE6, CHR 0x84, CHR 0x8F] @ dq @ '')'' @ sq
       @ '', timeout=3000)'' @ nl @ ''                await page.wait_for_timeout(500)'' @ nl
       @ ''            except:'' @ nl @ ''                pass  # Continue if not found'' @ nl"

definition modal_handler :: string where
  "modal_handler =
     nl @ ''            # Handle modal'' @ nl @ ''            try:'' @ nl
       @ ''                print('' @ dq @ [CHR 0xF0, CHR 0x9F, CHR 0x93, CHR 0x8B]
       @ '' Closing modal...'' @ dq @ '')'' @ nl @ ''                await page.click('' @ sq
       @ ''button:has-text('' @ dq @ ''Close'' @ dq @ ''), button.close, .modal-close'' @ sq
       @ '', timeout=2000)'' @ nl @ ''                await page.wait_for_timeout(500)'' @ nl
       @ ''            except:'' @ nl @ ''                pass'' @ nl"

definition ad_handler :: string where
  "ad_handler =
     nl @ ''            # Handle ads'' @ nl @ ''            try:'' @ nl
       @ ''                print('' @ dq @ [CHR 0xF0, CHR 0x9F, CHR 0x9A, CHR 0xAB]
       @ '' Blocking ads...'' @ dq @ '')'' @ nl @ ''                await page.evaluate('' @ dq
       @ ''document.querySelectorAll('' @ sq @ ''.ad, .advertisement'' @ sq
       @ '').forEach(el => el.remove())'' @ dq @ '')'' @ nl @ ''            except:'' @ nl
       @ ''                pass'' @ nl"

text \<open>The loop over the obstacles; \<open>handlers\<close> is the list built so far.\<close>

fun obstacle_handlers_loop :: "Obstacle list \<Rightarrow> string list \<Rightarrow> string list" where
  "obstacle_handlers_loop [] handlers = handlers"
| "obstacle_handlers_loop (obstacle # rest) handlers =
     obstacle_handlers_loop rest
       (if obstacle_type obstacle = ''cookie_banner'' then handlers @ [cookie_banner_handler]
        else if obstacle_type obstacle = ''modal'' then handlers @ [modal_handler]
        else if obstacle_type obstacle = ''ad'' then handlers @ [ad_handler]
        else handlers)"

definition generate_obstacle_handlers :: "Obstacle list \<Rightarrow> string" where
  "generate_obstacle_handlers obs =
     (if obs = [] then ''            # No obstacles detected''
      else join nl (obstacle_handlers_loop obs [''            # Handle common obstacles'']))"

definition click_block :: "nat \<Rightarrow> ExecutionStep \<Rightarrow> string" where
  "click_block i step =
     nl @ ''            # Step ''
       @ str_of_nat i
       @ '': Click'' @ nl @ ''            print('' @ dq
       @ [CHR 0xF0, CHR 0x9F, CHR 0x96, CHR 0xB1, CHR 0xEF, CHR 0xB8, CHR 0x8F]
       @ ''  Clicking element...'' @ dq @ '')'' @ nl @ ''            await page.click('' @ sq
       @ str_or (target step) ''button''
       @ sq @ '')'' @ nl @ ''            await page.wait_for_timeout(1000)'' @ nl"

definition fill_block :: "nat \<Rightarrow> ExecutionStep \<Rightarrow> string" where
  "fill_block i step =
     nl @ ''            # Step ''
       @ str_of_nat i
       @ '': Fill input'' @ nl @ ''            print('' @ dq
       @ [CHR 0xE2, CHR 0x8C, CHR 0xA8, CHR 0xEF, CHR 0xB8, CHR 0x8F] @ ''  Typing text...''
       @ dq @ '')'' @ nl @ ''            await page.fill('' @ sq
       @ str_or (target step) ''input''
       @ sq @ '', '' @ sq
       @ str_or (step_value step) []
       @ sq @ '')'' @ nl"

definition navigate_block :: "nat \<Rightarrow> ExecutionStep \<Rightarrow> string" where
  "navigate_block i step =
     nl @ ''            # Step ''
       @ str_of_nat i
       @ '': Navigate'' @ nl @ ''            print('' @ dq
       @ [CHR 0xF0, CHR 0x9F, CHR 0x94, CHR 0x97] @ '' Navigating...'' @ dq @ '')'' @ nl
       @ ''            await page.goto('' @ sq
       @ value_or_target step
       @ sq @ '')'' @ nl @ ''            await page.wait_for_load_state('' @ sq @ ''networkidle''
       @ sq @ '')'' @ nl"

text \<open>The scroll block is not an f-string in the source: \<open>{i}\<close> stays as written.\<close>

definition scroll_block :: string where
  "scroll_block =
     nl @ ''            # Step {i}: Scroll'' @ nl @ ''            print('' @ dq
       @ [CHR 0xF0, CHR 0x9F, CHR 0x93, CHR 0x9C] @ '' Scrolling...'' @ dq @ '')'' @ nl
       @ ''            await page.evaluate('' @ dq @ ''window.scrollBy(0, 500)'' @ dq @ '')''
       @ nl @ ''            await page.wait_for_timeout(500)'' @ nl"

text \<open>
  The loop \<open>for i, step in enumerate(journey_log, 1)\<close>; \<open>steps\<close> is the list of
  blocks built so far. The \<open>if\<close>/\<open>elif\<close> chain has no \<open>else\<close> branch.
\<close>

fun main_steps_loop :: "nat \<Rightarrow> ExecutionStep list \<Rightarrow> string list \<Rightarrow> string list" where
  "main_steps_loop i [] steps = steps"
| "main_steps_loop i (step # rest) steps =
     main_steps_loop (i + 1) rest
       (if action step = ''click'' then steps @ [click_block i step]
        else if action step \<in> set [''type'', ''fill''] then steps @ [fill_block i step]
        else if action step = ''navigate'' then steps @ [navigate_block i step]
        else if action step = ''scroll'' then steps @ [scroll_block]
        else steps)"

definition generate_main_steps :: "ExecutionStep list \<Rightarrow> string" where
  "generate_main_steps journey =
     (if journey = [] then ''            # No steps recorded''
      else join nl (main_steps_loop 1 journey [''            # Main execution steps'']))"

definition generate_extract_logic :: "ExplorationResult \<Rightarrow> string" where
  "generate_extract_logic exploration =
     nl @ ''            # Extract results'' @ nl @ ''            print('' @ dq
       @ [CHR 0xF0, CHR 0x9F, CHR 0x93, CHR 0x8A] @ '' Extracting data...'' @ dq @ '')'' @ nl
       @ ''            result = {'' @ nl @ ''                '' @ sq @ ''success'' @ sq
       @ '': True,'' @ nl @ ''                '' @ sq @ ''data'' @ sq
       @ '': await page.evaluate('' @ sq @ ''document.body.innerText'' @ sq @ ''),'' @ nl
       @ ''                '' @ sq @ ''url'' @ sq @ '': page.url'' @ nl @ ''            }''
       @ nl"

text \<open>\<open>now\<close> is the text of \<open>datetime.now().isoformat()\<close>.\<close>

definition generate_playwright_script ::
  "ExplorationResult \<Rightarrow> string \<Rightarrow> string \<Rightarrow> string \<Rightarrow> string" where
  "generate_playwright_script exploration url task now =
     (let obstacle_handlers = generate_obstacle_handlers (obstacles exploration);
          main_steps = generate_main_steps (journey_log exploration);
          extract_logic = generate_extract_logic exploration
      in
       dq @ dq @ dq @ nl @ ''Auto-generated script from LLM exploration'' @ nl @ ''Task: ''
       @ task
       @ nl @ ''URL: ''
       @ url
       @ nl @ ''Generated: ''
       @ now
       @ nl @ ''Framework: Playwright'' @ nl @ dq @ dq @ dq @ nl @ nl @ ''import asyncio'' @ nl
       @ ''from playwright.async_api import async_playwright'' @ nl @ nl @ nl
       @ ''async def automated_task():'' @ nl @ ''    '' @ dq @ dq @ dq
       @ ''Execute the automated task'' @ dq @ dq @ dq @ nl
       @ ''    async with async_playwright() as p:'' @ nl
       @ ''        browser = await p.chromium.launch(headless=True)'' @ nl
       @ ''        page = await browser.new_page()'' @ nl @ ''        '' @ nl
       @ ''        try:'' @ nl @ ''            print('' @ dq
       @ [CHR 0xF0, CHR 0x9F, CHR 0x9A, CHR 0x80] @ '' Starting automation...'' @ dq @ '')''
       @ nl @ ''            '' @ nl @ ''            # Step 1: Navigate to URL'' @ nl
       @ ''            print(f'' @ dq @ [CHR 0xF0, CHR 0x9F, CHR 0x93, CHR 0x8D]
       @ '' Navigating to {url}'' @ dq @ '')'' @ nl @ ''            await page.goto('' @ sq
       @ url
       @ sq @ '')'' @ nl @ ''            await page.wait_for_load_state('' @ sq @ ''networkidle''
       @ sq @ '')'' @ nl @ ''            '' @ nl
       @ obstacle_handlers
       @ nl @ ''            '' @ nl
       @ main_steps
       @ nl @ ''            '' @ nl
       @ extract_logic
       @ nl @ ''            '' @ nl @ ''            print('' @ dq
       @ [CHR 0xE2, CHR 0x9C, CHR 0x85] @ '' Task completed successfully!'' @ dq @ '')'' @ nl
       @ ''            return result'' @ nl @ ''            '' @ nl
       @ ''        except Exception as e:'' @ nl @ ''            print(f'' @ dq
       @ [CHR 0xE2, CHR 0x9D, CHR 0x8C] @ '' Error: {e}'' @ dq @ '')'' @ nl
       @ ''            raise'' @ nl @ ''        finally:'' @ nl
       @ ''            await browser.close()'' @ nl @ nl @ nl @ ''if __name__ == '' @ dq
       @ ''__main__'' @ dq @ '':'' @ nl @ ''    result = asyncio.run(automated_task())'' @ nl
       @ ''    print(f'' @ dq @ [CHR 0x5C] @ ''n'' @ [CHR 0xF0, CHR 0x9F, CHR 0x93, CHR 0x8A]
       @ '' Result: {result}'' @ dq @ '')'' @ nl)"

definition generate_selenium_script ::
  "ExplorationResult \<Rightarrow> string \<Rightarrow> string \<Rightarrow> string" where
  "generate_selenium_script exploration url task =
     dq @ dq @ dq @ nl @ ''Selenium script generation not yet implemented'' @ nl
       @ ''Use Playwright instead'' @ nl @ dq @ dq @ dq @ nl"

definition generate_from_exploration ::
  "string \<Rightarrow> ExplorationResult \<Rightarrow> string \<Rightarrow> string \<Rightarrow> string \<Rightarrow> GeneratedScript" where
  "generate_from_exploration framework exploration url task now =
     (let (c, deps) =
            (if framework = ''playwright''
             then (generate_playwright_script exploration url task now, [''playwright''])
             else (generate_selenium_script exploration url task, [''selenium'']))
      in \<lparr> code = c, language = ''python'', dependencies = deps,
           test_status = None, gs_script_path = None \<rparr>)"

section \<open>Script library (orchestrator.py, class ScriptLibrary)\<close>

text \<open>
  The file system is a map from paths to file contents. \<open>hashlib.md5\<close> is not part of
  the repository: the digest of a text is a parameter \<open>md5\<close>, a number whose 32
  lower-case hexadecimal digits are the \<open>hexdigest\<close>.
\<close>

type_synonym file_system = "string \<rightharpoonup> string"

definition hex_char :: "nat \<Rightarrow> char" where
  "hex_char d = ''0123456789abcdef'' ! (d mod 16)"

fun to_hex :: "nat \<Rightarrow> nat \<Rightarrow> string" where
  "to_hex 0 d = []"
| "to_hex (Suc k) d = to_hex k (d div 16) @ [hex_char d]"

definition hexdigest :: "nat \<Rightarrow> string" where
  "hexdigest d = to_hex 32 d"

definition generate_id :: "(string \<Rightarrow> nat) \<Rightarrow> string \<Rightarrow> string \<Rightarrow> string" where
  "generate_id md5 url task =
     (let combined = url @ '':'' @ task in take 12 (hexdigest (md5 combined)))"

text \<open>\<open>os.path.join(a, b)\<close> of \<open>posixpath\<close>.\<close>

definition os_path_join :: "string \<Rightarrow> string \<Rightarrow> string" where
  "os_path_join a b =
     (if starts_with ''/'' b then b
      else if a = [] \<or> last a = CHR ''/'' then a @ b
      else a @ ''/'' @ b)"

text \<open>
  Both \<open>open\<close> calls are in text mode with the default \<open>newline=None\<close>. On a POSIX
  system writing stores the text as it is; reading translates every \<open>\r\n\<close> and every
  remaining \<open>\r\<close> to \<open>\n\<close> (universal newlines).
\<close>

fun universal_newlines :: "string \<Rightarrow> string" where
  "universal_newlines [] = []"
| "universal_newlines (c # cs) =
     (if c = CHR 0x0D then
        (case cs of
           [] \<Rightarrow> [CHR 0x0A]
         | d # ds \<Rightarrow>
             if d = CHR 0x0A then CHR 0x0A # universal_newlines ds
             else CHR 0x0A # universal_newlines cs)
      else c # universal_newlines cs)"

record ScriptLibrary =
  library_path :: string

definition script_path_of :: "(string \<Rightarrow> nat) \<Rightarrow> ScriptLibrary \<Rightarrow> string \<Rightarrow> string \<Rightarrow> string" where
  "script_path_of md5 lib url task =
     (let script_id = generate_id md5 url task
      in os_path_join (library_path lib) (script_id @ ''.py''))"

definition find_script ::
  "(string \<Rightarrow> nat) \<Rightarrow> ScriptLibrary \<Rightarrow> file_system \<Rightarrow> string \<Rightarrow> string \<Rightarrow> string option" where
  "find_script md5 lib fs url task =
     (let script_path = script_path_of md5 lib url task
      in case fs script_path of
           Some content \<Rightarrow> Some (universal_newlines content)
         | None \<Rightarrow> None)"

text \<open>\<open>save\<close> returns the new file system and the path written.\<close>

definition save ::
  "(string \<Rightarrow> nat) \<Rightarrow> ScriptLibrary \<Rightarrow> file_system \<Rightarrow> string \<Rightarrow> string \<Rightarrow> string
     \<Rightarrow> file_system \<times> string" where
  "save md5 lib fs url task c =
     (let script_path = script_path_of md5 lib url task
      in (fs(script_path \<mapsto> c), script_path))"

text \<open>A history of \<open>save\<close> calls, oldest first.\<close>

fun save_all ::
  "(string \<Rightarrow> nat) \<Rightarrow> ScriptLibrary \<Rightarrow> file_system \<Rightarrow> (string \<times> string \<times> string) list
     \<Rightarrow> file_system" where
  "save_all md5 lib fs [] = fs"
| "save_all md5 lib fs ((u, t, c) # rest) = save_all md5 lib (fst (save md5 lib fs u t c)) rest"

section \<open>Orchestrator (orchestrator.py, class IntelligentBrowserAutomation)\<close>

record ExecutionResult =
  er_success :: bool
  er_method :: string
  result :: "string option"
  er_steps :: "int option"
  duration :: "rat option"
  cost :: "rat option"
  er_error :: "string option"
  script_path :: "string option"
  actions :: "string list option"

text \<open>
  A raised exception carries its message. \<open>execute\<close> is annotated to return an
  \<open>ExecutionResult\<close>, but Python does not enforce the annotation: the value returned
  is either a \<open>str\<close> or an \<open>ExecutionResult\<close>.
\<close>

datatype py_exception = PyException string

datatype py_value = PyStr string | PyExecutionResult ExecutionResult

text \<open>
  The world is the file system and a counter of the calls made to the outside. The
  collaborators are parameters, each a function of the counter at the time of the call:
  the digest, \<open>uuid.uuid4().hex\<close>, \<open>datetime.now().isoformat()\<close>,
  \<open>subprocess.run\<close> (an exception such as the timeout, or return code, stdout and
  stderr), the exploration engine and the browser-use executor. A run of a script is
  taken not to write to the file system of the model.
\<close>

record world =
  files :: file_system
  ticks :: nat

record env =
  md5 :: "string \<Rightarrow> nat"
  uuid4_hex :: "nat \<Rightarrow> string"
  now_isoformat :: "nat \<Rightarrow> string"
  subprocess_run :: "nat \<Rightarrow> string \<Rightarrow> py_exception + (int \<times> string \<times> string)"
  explore_task :: "nat \<Rightarrow> string \<Rightarrow> string \<Rightarrow> py_exception + ExplorationResult"
  execute_non_repeatable ::
    "nat \<Rightarrow> string \<Rightarrow> string \<Rightarrow> ExplorationResult \<Rightarrow> py_exception + ExecutionResult"

definition tick :: "world \<Rightarrow> world" where
  "tick w = w\<lparr>ticks := ticks w + 1\<rparr>"

definition write_file :: "world \<Rightarrow> string \<Rightarrow> string \<Rightarrow> world" where
  "write_file w path content = w\<lparr>files := (files w)(path \<mapsto> content)\<rparr>"

definition execute_script :: "env \<Rightarrow> world \<Rightarrow> string \<Rightarrow> (py_exception + string) \<times> world" where
  "execute_script e w script_code =
     (let temp_path = ''/tmp/script_'' @ take 8 (uuid4_hex e (ticks w)) @ ''.py'';
          w1 = write_file (tick w) temp_path script_code;
          completed = subprocess_run e (ticks w1) script_code;
          w2 = tick w1
      in case completed of
           Inl ex \<Rightarrow> (Inl ex, w2)
         | Inr (returncode, out, err) \<Rightarrow>
             if returncode \<noteq> 0 then (Inl (PyException (''Script failed: '' @ err)), w2)
             else (Inr out, w2))"

definition execute_with_browser_use ::
  "env \<Rightarrow> world \<Rightarrow> string \<Rightarrow> string \<Rightarrow> ExplorationResult
     \<Rightarrow> (py_exception + ExecutionResult) \<times> world" where
  "execute_with_browser_use e w url task exploration =
     (execute_non_repeatable e (ticks w) url task exploration, tick w)"

definition execute_with_script ::
  "env \<Rightarrow> ScriptLibrary \<Rightarrow> world \<Rightarrow> ExplorationResult \<Rightarrow> string \<Rightarrow> string
     \<Rightarrow> (py_exception + ExecutionResult) \<times> world" where
  "execute_with_script e lib w exploration url task =
     (let script =
            generate_from_exploration ''playwright'' exploration url task
              (now_isoformat e (ticks w));
          w1 = tick w;
          test_path = ''generated_scripts/test_'' @ take 8 (uuid4_hex e (ticks w1)) @ ''.py'';
          w2 = write_file (tick w1) test_path (code script);
          (r, w3) = execute_script e w2 (code script)
      in case r of
           Inr out \<Rightarrow>
             (let (fs, saved_path) = save (md5 e) lib (files w3) url task (code script)
              in (Inr \<lparr> er_success = True, er_method = ''SCRIPT'', result = Some out,
                        er_steps = None, duration = None, cost = None, er_error = None,
                        script_path = Some saved_path, actions = None \<rparr>,
                  w3\<lparr>files := fs\<rparr>))
         | Inl ex \<Rightarrow> execute_with_browser_use e w3 url task exploration)"

definition execute_hybrid ::
  "env \<Rightarrow> ScriptLibrary \<Rightarrow> world \<Rightarrow> ExplorationResult \<Rightarrow> string \<Rightarrow> string
     \<Rightarrow> (py_exception + ExecutionResult) \<times> world" where
  "execute_hybrid e lib w exploration url task =
     (case execute_with_script e lib w exploration url task of
        (Inr r, w1) \<Rightarrow> (Inr r, w1)
      | (Inl ex, w1) \<Rightarrow> execute_with_browser_use e w1 url task exploration)"

text \<open>Phases 1 to 3 of \<open>execute\<close>: everything after the lookup in the library.\<close>

definition explore_and_route ::
  "env \<Rightarrow> ScriptLibrary \<Rightarrow> world \<Rightarrow> string \<Rightarrow> string \<Rightarrow> (py_exception + py_value) \<times> world" where
  "explore_and_route e lib w url task =
     (case explore_task e (ticks w) url task of
        Inl ex \<Rightarrow> (Inl ex, tick w)
      | Inr exploration \<Rightarrow>
          if \<not> success exploration then
            (Inr (PyExecutionResult
                    \<lparr> er_success = False, er_method = ''EXPLORATION_FAILED'', result = None,
                      er_steps = None, duration = None, cost = None,
                      er_error = error exploration, script_path = None, actions = None \<rparr>),
             tick w)
          else
            let analysis = analyze exploration;
                (r, w1) =
                  (if recommendation analysis = ''SCRIPT''
                   then execute_with_script e lib (tick w) exploration url task
                   else if recommendation analysis = ''BROWSER_USE''
                   then execute_with_browser_use e (tick w) url task exploration
                   else execute_hybrid e lib (tick w) exploration url task)
            in (map_sum id PyExecutionResult r, w1))"

text \<open>
  \<open>execute\<close>. \<open>if existing_script:\<close> holds for a text that is neither \<open>None\<close> nor
  empty. On success of the cached script the source returns \<open>result\<close>, the value of
  \<open>_execute_script\<close>.
\<close>

definition execute ::
  "env \<Rightarrow> ScriptLibrary \<Rightarrow> world \<Rightarrow> string \<Rightarrow> string \<Rightarrow> (py_exception + py_value) \<times> world" where
  "execute e lib w url task =
     (let existing_script = find_script (md5 e) lib (files w) url task
      in case existing_script of
           None \<Rightarrow> explore_and_route e lib w url task
         | Some script_code \<Rightarrow>
             if script_code = [] then explore_and_route e lib w url task
             else
               (case execute_script e w script_code of
                  (Inr out, w1) \<Rightarrow> (Inr (PyStr out), w1)
                | (Inl ex, w1) \<Rightarrow> explore_and_route e lib w1 url task))"

section \<open>Example inputs\<close>

definition step_of :: "string \<Rightarrow> ExecutionStep" where
  "step_of a = \<lparr> step_number = 0, action = a, target = None, step_value = None,
                 timestamp = None, screenshot = None \<rparr>"

definition trace_of :: "string list \<Rightarrow> ExplorationResult" where
  "trace_of kinds = \<lparr> success = True, journey_log = map step_of kinds, obstacles = [],
                       decisions = [], final_result = None, error = None \<rparr>"

text \<open>The trace navigate, click, type, extract: four steps, four kinds.\<close>

definition four_step_trace :: ExplorationResult where
  "four_step_trace = trace_of [''navigate'', ''click'', ''type'', ''extract'']"

text \<open>The same four kinds in six steps.\<close>

definition six_step_trace :: ExplorationResult where
  "six_step_trace =
     trace_of [''navigate'', ''click'', ''type'', ''click'', ''type'', ''extract'']"

definition empty_trace :: ExplorationResult where
  "empty_trace = trace_of []"

definition decision_of :: "string \<Rightarrow> DecisionPoint" where
  "decision_of q = \<lparr> dp_step_number = 1, question = q, decision = ''yes'',
                     reasoning = ''given'', alternatives = [] \<rparr>"

text \<open>Six decisions whose questions are plain data-entry instructions.\<close>

definition six_decisions_trace :: ExplorationResult where
  "six_decisions_trace =
     six_step_trace\<lparr>decisions := replicate 6 (decision_of ''Fill form with provided data'')\<rparr>"

definition one_decision_trace :: ExplorationResult where
  "one_decision_trace =
     six_step_trace\<lparr>decisions := [decision_of ''Click the first result'']\<rparr>"

text \<open>A failed exploration with an unpredictable obstacle and six decisions.\<close>

definition worst_trace :: ExplorationResult where
  "worst_trace =
     \<lparr> success = False, journey_log = [],
       obstacles = [\<lparr> obstacle_type = ''captcha'', likelihood = 1 / 2,
                      handling_strategy = ''none'', detected_at_step = None \<rparr>],
       decisions = replicate 6 (decision_of ''Fill form with provided data''),
       final_result = None, error = Some ''blocked'' \<rparr>"

text \<open>
  A digest function that agrees with MD5 on the two texts used below and is 0 elsewhere.
\<close>

definition demo_md5 :: "string \<Rightarrow> nat" where
  "demo_md5 s =
     (if s = ''https://example.com:Find the title''
      then 210321147251988012006343126523513380104
      else if s = ''https://example.org:Log in''
      then 316770932894960917991577826305843875250
      else 0)"

definition demo_lib :: ScriptLibrary where
  "demo_lib = \<lparr> library_path = ''generated_scripts'' \<rparr>"

text \<open>An exploration that the engine reports as failed.\<close>

definition failed_exploration :: ExplorationResult where
  "failed_exploration =
     \<lparr> success = False, journey_log = [], obstacles = [], decisions = [],
       final_result = None, error = Some ''browser crashed'' \<rparr>"

definition demo_browser_result :: ExecutionResult where
  "demo_browser_result =
     \<lparr> er_success = True, er_method = ''BROWSER_USE'', result = Some ''page title'',
       er_steps = Some 3, duration = None, cost = None, er_error = None,
       script_path = None, actions = None \<rparr>"

text \<open>
  Collaborators for the examples: every run of a script exits with code 0 and prints
  \<open>done\<close>, and every exploration fails.
\<close>

definition demo_env :: env where
  "demo_env =
     \<lparr> md5 = demo_md5,
       uuid4_hex = (\<lambda>n. ''0123456789abcdef0123456789abcdef''),
       now_isoformat = (\<lambda>n. ''2025-01-01T00:00:00''),
       subprocess_run = (\<lambda>n c. Inr (0, ''done'' @ [CHR 0x0A], [])),
       explore_task = (\<lambda>n u t. Inr failed_exploration),
       execute_non_repeatable = (\<lambda>n u t x. Inr demo_browser_result) \<rparr>"

definition empty_world :: world where
  "empty_world = \<lparr> files = Map.empty, ticks = 0 \<rparr>"

text \<open>The world after a script for the first example task has been saved.\<close>

definition cached_world :: world where
  "cached_world =
     \<lparr> files = fst (save demo_md5 demo_lib Map.empty ''https://example.com'' ''Find the title''
                       (''print(1)'' @ [CHR 0x0A])),
       ticks = 0 \<rparr>"

text \<open>Three steps: a click, an extraction and a navigation.\<close>

definition click_step :: ExecutionStep where
  "click_step = (step_of ''click'')\<lparr>target := Some ''#go''\<rparr>"

definition extract_step :: ExecutionStep where
  "extract_step = step_of ''extract''"

definition navigate_step :: ExecutionStep where
  "navigate_step = (step_of ''navigate'')\<lparr>step_value := Some ''https://example.com/a''\<rparr>"

section \<open>The analyzer's score\<close>

lemma analyze_score:
  "score (analyze e) =
     (if are_steps_deterministic (journey_log e) then 3 else 0)
   + (if are_obstacles_predictable (obstacles e) then 2 else 0)
   + (if are_decisions_rule_based (decisions e) then 2 else - 3)
   + (if is_dom_stable e then 2 else 0)
   + (if has_dynamic_content e then - 2 else 0)"
  by (simp add: analyze_def Let_def)

lemma analyze_recommendation:
  "recommendation (analyze e) = get_recommendation (score (analyze e))"
  by (simp add: analyze_def Let_def split: prod.splits)

lemma analyze_is_repeatable: "is_repeatable (analyze e) = (score (analyze e) \<ge> 5)"
  by (simp add: analyze_def Let_def split: prod.splits)

lemma analyze_confidence:
  "confidence (analyze e) = py_min (of_int \<bar>score (analyze e)\<bar> / 10) 1"
  by (simp add: analyze_def Let_def split: prod.splits)

lemma analyze_rule_based:
  "rule_based_decisions (analyze e) = are_decisions_rule_based (decisions e)"
  by (simp add: analyze_def Let_def split: prod.splits)

lemma analyze_score_bounds: "- 5 \<le> score (analyze e) \<and> score (analyze e) \<le> 9"
  by (simp add: analyze_score)

subsection \<open>Four kinds of action in \<open>n\<close> steps\<close>

lemmas times_0_7_eval =
  exceeds_times_0_7_def times_0_7_def round_to_53_def double_0_7_mantissa_def
  bit_length.simps Let_def

lemma four_exceeds_four: "exceeds_times_0_7 4 4"
  by (simp add: times_0_7_eval)

lemma four_not_exceeds_list: "list_all (\<lambda>n. \<not> exceeds_times_0_7 4 n) [6..<21]"
  by (simp add: upt_rec times_0_7_eval)

lemma four_not_exceeds:
  assumes "6 \<le> n" and "n \<le> 20"
  shows "\<not> exceeds_times_0_7 4 n"
proof -
  have "n \<in> {6..<21}" using assms by simp
  then have "n \<in> set [6..<21]" by (simp only: set_upt)
  with four_not_exceeds_list show ?thesis unfolding list_all_iff by blast
qed

lemma four_kinds_length:
  assumes "set (map action steps) = {''navigate'', ''click'', ''type'', ''extract''}"
  shows "length (remdups (map action steps)) = 4"
proof -
  have "length (remdups (map action steps)) = card (set (map action steps))"
    by (rule length_remdups_card_conv)
  also have "\<dots> = 4" unfolding assms by simp
  finally show ?thesis .
qed

lemma four_kinds_pattern:
  assumes "set (map action steps) = {''navigate'', ''click'', ''type'', ''extract''}"
  shows "list_ex (\<lambda>a. a \<in> set (map action steps)) common_patterns"
  unfolding common_patterns_def assms by simp

lemma four_kinds_deterministic:
  assumes "set (map action steps) = {''navigate'', ''click'', ''type'', ''extract''}"
    and "6 \<le> length steps" and "length steps \<le> 20"
  shows "are_steps_deterministic steps"
proof -
  have ne: "steps \<noteq> []" using assms(2) by auto
  show ?thesis
    unfolding are_steps_deterministic_def Let_def four_kinds_length [OF assms(1)] length_map
    using ne four_kinds_pattern [OF assms(1)] four_not_exceeds [OF assms(2,3)] by simp
qed

lemma four_step_trace_fields:
  "map action (journey_log four_step_trace) = [''navigate'', ''click'', ''type'', ''extract'']"
  "obstacles four_step_trace = []" "decisions four_step_trace = []"
  "success four_step_trace" "length (journey_log four_step_trace) = 4"
  by (simp_all add: four_step_trace_def trace_of_def step_of_def)

lemma six_step_trace_fields:
  "map action (journey_log six_step_trace) =
     [''navigate'', ''click'', ''type'', ''click'', ''type'', ''extract'']"
  "obstacles six_step_trace = []" "decisions six_step_trace = []"
  "success six_step_trace" "length (journey_log six_step_trace) = 6"
  by (simp_all add: six_step_trace_def trace_of_def step_of_def)

lemma four_step_trace_not_deterministic:
  "\<not> are_steps_deterministic (journey_log four_step_trace)"
proof -
  have u: "length (remdups (map action (journey_log four_step_trace))) = 4"
    by (simp add: four_step_trace_fields)
  show ?thesis
    unfolding are_steps_deterministic_def Let_def length_map u four_step_trace_fields(5)
    using four_exceeds_four by simp
qed

text \<open>
  C1, as stated, at the four-step trace navigate, click, type, extract: the four kinds in
  four steps give a ratio above 0.7, the steps are not deterministic, and the score is 6
  with recommendation HYBRID and confidence 0.6.
\<close>

theorem four_step_trace_scores_six:
  "set (map action (journey_log four_step_trace))
     = {''navigate'', ''click'', ''type'', ''extract''}
   \<and> obstacles four_step_trace = [] \<and> decisions four_step_trace = []
   \<and> success four_step_trace \<and> length (journey_log four_step_trace) < 30
   \<and> score (analyze four_step_trace) = 6
   \<and> recommendation (analyze four_step_trace) = ''HYBRID''
   \<and> confidence (analyze four_step_trace) = 6 / 10"
proof -
  have s: "score (analyze four_step_trace) = 6"
    using four_step_trace_not_deterministic
    by (simp add: analyze_score are_obstacles_predictable_def are_decisions_rule_based_def
        is_dom_stable_def has_dynamic_content_def four_step_trace_fields)
  show ?thesis
    by (simp add: s analyze_recommendation analyze_confidence get_recommendation_def
        py_min_def four_step_trace_fields)
qed

text \<open>
  The other step counts below 30: with 4 or 5 steps the four kinds exceed the ratio and the
  score is 6; from 21 steps on the dynamic-content signal takes 2 from the score.
\<close>

lemma four_exceeds_five: "exceeds_times_0_7 4 5"
  by (simp add: times_0_7_eval)

lemma four_not_exceeds_long_list: "list_all (\<lambda>n. \<not> exceeds_times_0_7 4 n) [21..<30]"
  by (simp add: upt_rec times_0_7_eval)

lemma four_kinds_other_lengths:
  assumes "set (map action (journey_log e)) = {''navigate'', ''click'', ''type'', ''extract''}"
    and "obstacles e = []" and "decisions e = []" and "success e"
  shows "length (journey_log e) \<le> 5 \<Longrightarrow> score (analyze e) = 6"
    and "21 \<le> length (journey_log e) \<Longrightarrow> length (journey_log e) < 30
           \<Longrightarrow> score (analyze e) = 7"
proof -
  let ?n = "length (journey_log e)"
  have u: "length (remdups (map action (journey_log e))) = 4"
    using assms(1) by (rule four_kinds_length)
  have "length (remdups (map action (journey_log e))) \<le> length (map action (journey_log e))"
    by (rule length_remdups_leq)
  then have ge: "4 \<le> ?n" unfolding u by simp
  {
    assume "?n \<le> 5"
    with ge have "?n = 4 \<or> ?n = 5" by auto
    then have "exceeds_times_0_7 4 ?n"
      using four_exceeds_four four_exceeds_five by auto
    then have "\<not> are_steps_deterministic (journey_log e)"
      unfolding are_steps_deterministic_def Let_def u length_map by simp
    with assms(2-4) \<open>?n \<le> 5\<close> show "score (analyze e) = 6"
      by (simp add: analyze_score are_obstacles_predictable_def are_decisions_rule_based_def
          is_dom_stable_def has_dynamic_content_def)
  }
  {
    assume l: "21 \<le> ?n" and h: "?n < 30"
    then have "?n \<in> {21..<30}" by simp
    then have "?n \<in> set [21..<30]" by (simp only: set_upt)
    with four_not_exceeds_long_list have "\<not> exceeds_times_0_7 4 ?n"
      unfolding list_all_iff by blast
    moreover have "journey_log e \<noteq> []" using l by auto
    ultimately have "are_steps_deterministic (journey_log e)"
      unfolding are_steps_deterministic_def Let_def u length_map
      using four_kinds_pattern [OF assms(1)] by simp
    with assms(2-4) l h show "score (analyze e) = 7"
      by (simp add: analyze_score are_obstacles_predictable_def are_decisions_rule_based_def
          is_dom_stable_def has_dynamic_content_def)
  }
qed

text \<open>
  C1, amended. For every exploration result whose steps' action kinds are exactly
  navigate, click, type and extract, with no obstacles, no decisions, success and between
  6 and 20 steps, \<open>analyze\<close> returns score 9, recommendation SCRIPT, is_repeatable true
  and confidence 0.9.
\<close>

theorem four_kinds_score_nine:
  assumes "set (map action (journey_log e)) = {''navigate'', ''click'', ''type'', ''extract''}"
    and "obstacles e = []" and "decisions e = []" and "success e"
    and "6 \<le> length (journey_log e)" and "length (journey_log e) \<le> 20"
  shows "score (analyze e) = 9 \<and> recommendation (analyze e) = ''SCRIPT''
         \<and> is_repeatable (analyze e) \<and> confidence (analyze e) = 9 / 10"
proof -
  have d: "are_steps_deterministic (journey_log e)"
    using assms(1,5,6) by (rule four_kinds_deterministic)
  have s: "score (analyze e) = 9"
    using d assms(2-6)
    by (simp add: analyze_score are_obstacles_predictable_def are_decisions_rule_based_def
        is_dom_stable_def has_dynamic_content_def)
  show ?thesis
    by (simp add: s analyze_recommendation analyze_is_repeatable analyze_confidence
        get_recommendation_def py_min_def)
qed

theorem four_kinds_score_nine_witness:
  "set (map action (journey_log six_step_trace))
     = {''navigate'', ''click'', ''type'', ''extract''}
   \<and> obstacles six_step_trace = [] \<and> decisions six_step_trace = []
   \<and> success six_step_trace
   \<and> 6 \<le> length (journey_log six_step_trace) \<and> length (journey_log six_step_trace) \<le> 20
   \<and> score (analyze six_step_trace) = 9
   \<and> recommendation (analyze six_step_trace) = ''SCRIPT''
   \<and> is_repeatable (analyze six_step_trace)
   \<and> confidence (analyze six_step_trace) = 9 / 10"
proof -
  have k: "set (map action (journey_log six_step_trace))
             = {''navigate'', ''click'', ''type'', ''extract''}"
    unfolding six_step_trace_fields by auto
  have r: "score (analyze six_step_trace) = 9
           \<and> recommendation (analyze six_step_trace) = ''SCRIPT''
           \<and> is_repeatable (analyze six_step_trace)
           \<and> confidence (analyze six_step_trace) = 9 / 10"
    by (rule four_kinds_score_nine [OF k]) (simp_all add: six_step_trace_fields)
  from k r show ?thesis
    by (simp add: six_step_trace_fields(2-5))
qed

section \<open>Routing thresholds\<close>

text \<open>
  C3. For every integer score, \<open>get_recommendation\<close> returns SCRIPT if the score is at
  least 7, HYBRID if it lies between 3 and 6 inclusive, and BROWSER_USE otherwise; the
  boundary scores 7, 6, 3 and 2 give SCRIPT, HYBRID, HYBRID and BROWSER_USE.
\<close>

theorem get_recommendation_thresholds:
  "get_recommendation s =
     (if s \<ge> 7 then ''SCRIPT'' else if 3 \<le> s \<and> s \<le> 6 then ''HYBRID'' else ''BROWSER_USE'')
   \<and> get_recommendation 7 = ''SCRIPT''
   \<and> get_recommendation 6 = ''HYBRID''
   \<and> get_recommendation 3 = ''HYBRID''
   \<and> get_recommendation 2 = ''BROWSER_USE''"
  by (simp add: get_recommendation_def)

section \<open>Decisions\<close>

lemma requires_interpretation_iff:
  "requires_interpretation ds \<longleftrightarrow>
     (\<exists>d \<in> set ds. \<exists>k \<in> set interpretation_keywords. str_contains k (lower (question d)))"
  by (simp add: requires_interpretation_def list_ex_iff)

lemma six_step_trace_deterministic: "are_steps_deterministic (journey_log six_step_trace)"
proof -
  have "set (map action (journey_log six_step_trace))
          = {''navigate'', ''click'', ''type'', ''extract''}"
    unfolding six_step_trace_fields by auto
  then show ?thesis
    by (rule four_kinds_deterministic) (simp_all add: six_step_trace_fields)
qed

lemma plain_question_no_keyword:
  "\<not> requires_interpretation [decision_of ''Fill form with provided data'']"
  "\<not> requires_interpretation [decision_of ''Click the first result'']"
  by (simp_all add: requires_interpretation_def decision_of_def interpretation_keywords_def
      lower_def char_lower_def)

text \<open>
  C5. With more than 5 decision points \<open>are_decisions_rule_based\<close> is false whatever the
  questions say, and the signal contributes -3 to the score. With at most 5 decisions, none
  of whose questions (in lower case, as the code compares them) contains an interpretation
  keyword, it is true and contributes +2.
\<close>

theorem decisions_rule_based_threshold:
  "(length (decisions e) > 5 \<longrightarrow>
      \<not> are_decisions_rule_based (decisions e)
      \<and> \<not> rule_based_decisions (analyze e)
      \<and> score (analyze e) =
          (if are_steps_deterministic (journey_log e) then 3 else 0)
        + (if are_obstacles_predictable (obstacles e) then 2 else 0)
        + (- 3)
        + (if is_dom_stable e then 2 else 0)
        + (if has_dynamic_content e then - 2 else 0))
   \<and> (length (decisions e) \<le> 5
        \<and> (\<forall>d \<in> set (decisions e). \<forall>k \<in> set interpretation_keywords.
              \<not> str_contains k (lower (question d))) \<longrightarrow>
      are_decisions_rule_based (decisions e)
      \<and> rule_based_decisions (analyze e)
      \<and> score (analyze e) =
          (if are_steps_deterministic (journey_log e) then 3 else 0)
        + (if are_obstacles_predictable (obstacles e) then 2 else 0)
        + 2
        + (if is_dom_stable e then 2 else 0)
        + (if has_dynamic_content e then - 2 else 0))"
proof (intro conjI impI)
  assume many: "length (decisions e) > 5"
  then show f: "\<not> are_decisions_rule_based (decisions e)"
    by (auto simp add: are_decisions_rule_based_def)
  then show "\<not> rule_based_decisions (analyze e)"
    by (simp add: analyze_rule_based)
  from f show "score (analyze e) =
          (if are_steps_deterministic (journey_log e) then 3 else 0)
        + (if are_obstacles_predictable (obstacles e) then 2 else 0)
        + (- 3)
        + (if is_dom_stable e then 2 else 0)
        + (if has_dynamic_content e then - 2 else 0)"
    by (simp add: analyze_score)
next
  assume few: "length (decisions e) \<le> 5
        \<and> (\<forall>d \<in> set (decisions e). \<forall>k \<in> set interpretation_keywords.
              \<not> str_contains k (lower (question d)))"
  then have "\<not> requires_interpretation (decisions e)"
    unfolding requires_interpretation_iff by blast
  with few show t: "are_decisions_rule_based (decisions e)"
    by (simp add: are_decisions_rule_based_def)
  then show "rule_based_decisions (analyze e)"
    by (simp add: analyze_rule_based)
  from t show "score (analyze e) =
          (if are_steps_deterministic (journey_log e) then 3 else 0)
        + (if are_obstacles_predictable (obstacles e) then 2 else 0)
        + 2
        + (if is_dom_stable e then 2 else 0)
        + (if has_dynamic_content e then - 2 else 0)"
    by (simp add: analyze_score)
qed

theorem decisions_rule_based_threshold_witness:
  "length (decisions six_decisions_trace) > 5
   \<and> \<not> requires_interpretation (decisions six_decisions_trace)
   \<and> \<not> are_decisions_rule_based (decisions six_decisions_trace)
   \<and> score (analyze six_decisions_trace) = 3 + 2 + (- 3) + 2 + (- 2)
   \<and> length (decisions one_decision_trace) \<le> 5
   \<and> \<not> requires_interpretation (decisions one_decision_trace)
   \<and> are_decisions_rule_based (decisions one_decision_trace)
   \<and> score (analyze one_decision_trace) = 3 + 2 + 2 + 2 + 0"
proof -
  have d6: "decisions six_decisions_trace
              = replicate 6 (decision_of ''Fill form with provided data'')"
    and j6: "journey_log six_decisions_trace = journey_log six_step_trace"
    and o6: "obstacles six_decisions_trace = []" and s6: "success six_decisions_trace"
    by (simp_all add: six_decisions_trace_def six_step_trace_fields)
  have d1: "decisions one_decision_trace = [decision_of ''Click the first result'']"
    and j1: "journey_log one_decision_trace = journey_log six_step_trace"
    and o1: "obstacles one_decision_trace = []" and s1: "success one_decision_trace"
    by (simp_all add: one_decision_trace_def six_step_trace_fields)
  have k6: "\<forall>d \<in> set (decisions six_decisions_trace). \<forall>k \<in> set interpretation_keywords.
              \<not> str_contains k (lower (question d))"
    using plain_question_no_keyword(1) unfolding requires_interpretation_iff d6 by simp
  have k1: "\<forall>d \<in> set (decisions one_decision_trace). \<forall>k \<in> set interpretation_keywords.
              \<not> str_contains k (lower (question d))"
    using plain_question_no_keyword(2) unfolding requires_interpretation_iff d1 by simp
  have l6: "length (decisions six_decisions_trace) > 5" by (simp add: d6)
  have l1: "length (decisions one_decision_trace) \<le> 5" by (simp add: d1)
  have r6: "\<not> are_decisions_rule_based (decisions six_decisions_trace)
            \<and> score (analyze six_decisions_trace) = 3 + 2 + (- 3) + 2 + (- 2)"
    using decisions_rule_based_threshold [of six_decisions_trace] l6
    by (simp add: j6 o6 s6 six_step_trace_deterministic are_obstacles_predictable_def
        is_dom_stable_def has_dynamic_content_def six_step_trace_fields)
  have r1: "are_decisions_rule_based (decisions one_decision_trace)
            \<and> score (analyze one_decision_trace) = 3 + 2 + 2 + 2 + 0"
    using decisions_rule_based_threshold [of one_decision_trace] l1 k1
    by (simp add: j1 o1 s1 six_step_trace_deterministic are_obstacles_predictable_def
        is_dom_stable_def has_dynamic_content_def six_step_trace_fields d1)
  have n6: "\<not> requires_interpretation (decisions six_decisions_trace)"
    using k6 unfolding requires_interpretation_iff by blast
  have n1: "\<not> requires_interpretation (decisions one_decision_trace)"
    using k1 unfolding requires_interpretation_iff by blast
  from l6 n6 r6 l1 n1 r1 show ?thesis by blast
qed

section \<open>Repeatability flag, confidence and the range of the score\<close>

lemma py_min_is_min: "py_min a b = min a b"
  by (simp add: py_min_def min_def)

text \<open>
  C6. For every exploration result, the repeatability score returned by \<open>analyze\<close> has
  is_repeatable = (score \<ge> 5) and confidence = min(|score| / 10, 1.0).
\<close>

theorem analyze_repeatable_and_confidence:
  "is_repeatable (analyze e) = (score (analyze e) \<ge> 5)
   \<and> confidence (analyze e) = min (of_int \<bar>score (analyze e)\<bar> / 10) 1"
  by (simp add: analyze_is_repeatable analyze_confidence py_min_is_min)

lemma worst_trace_score: "score (analyze worst_trace) = - 5"
  by (simp add: analyze_score worst_trace_def are_steps_deterministic_def
      are_obstacles_predictable_def are_decisions_rule_based_def is_dom_stable_def
      has_dynamic_content_def unpredictable_types_def)

lemma six_step_trace_score: "score (analyze six_step_trace) = 9"
  using six_step_trace_deterministic
  by (simp add: analyze_score are_obstacles_predictable_def are_decisions_rule_based_def
      is_dom_stable_def has_dynamic_content_def six_step_trace_fields)

text \<open>
  C9. For every exploration result the score returned by \<open>analyze\<close> lies between -5 and 9
  inclusive, both extremes are reached, and the confidence is |score| / 10, never above
  0.9: the clamp at 1.0 is never reached.
\<close>

theorem analyze_score_range:
  "- 5 \<le> score (analyze e) \<and> score (analyze e) \<le> 9
   \<and> confidence (analyze e) = of_int \<bar>score (analyze e)\<bar> / 10
   \<and> confidence (analyze e) \<le> 9 / 10
   \<and> score (analyze worst_trace) = - 5 \<and> score (analyze six_step_trace) = 9"
proof -
  have b: "- 5 \<le> score (analyze e) \<and> score (analyze e) \<le> 9"
    by (rule analyze_score_bounds)
  then have a: "\<bar>score (analyze e)\<bar> \<le> 9" by linarith
  then have q: "(of_int \<bar>score (analyze e)\<bar> :: rat) \<le> 9"
    by (metis of_int_le_iff of_int_numeral)
  then have c: "confidence (analyze e) = of_int \<bar>score (analyze e)\<bar> / 10"
    by (simp add: analyze_confidence py_min_def)
  from q have "confidence (analyze e) \<le> 9 / 10"
    unfolding c by simp
  with b c show ?thesis
    by (simp add: worst_trace_score six_step_trace_score)
qed

section \<open>An empty journey log\<close>

text \<open>
  C10. For every exploration result whose journey log is empty, the deterministic-steps
  signal is false, the score is at most 6, and \<open>analyze\<close> never recommends SCRIPT: the
  recommendation is HYBRID or BROWSER_USE.
\<close>

theorem empty_log_never_script:
  assumes "journey_log e = []"
  shows "\<not> deterministic_steps (analyze e) \<and> score (analyze e) \<le> 6
         \<and> recommendation (analyze e) \<noteq> ''SCRIPT''
         \<and> (recommendation (analyze e) = ''HYBRID''
              \<or> recommendation (analyze e) = ''BROWSER_USE'')"
proof -
  have d: "\<not> are_steps_deterministic (journey_log e)"
    using assms by (simp add: are_steps_deterministic_def)
  have ds: "deterministic_steps (analyze e) = are_steps_deterministic (journey_log e)"
    by (simp add: analyze_def Let_def)
  have s: "score (analyze e) \<le> 6"
    using d by (simp add: analyze_score)
  then show ?thesis
    using d by (simp add: ds analyze_recommendation get_recommendation_def)
qed

theorem empty_log_never_script_witness:
  "journey_log empty_trace = []
   \<and> score (analyze empty_trace) \<le> 6
   \<and> recommendation (analyze empty_trace) \<noteq> ''SCRIPT''"
  using empty_log_never_script [of empty_trace]
  by (simp add: empty_trace_def trace_of_def)

section \<open>Script library: round trip\<close>

lemma universal_newlines_no_cr:
  "CHR 0x0D \<notin> set c \<Longrightarrow> universal_newlines c = c"
  by (induction c) auto

lemma to_hex_chars: "set (to_hex k d) \<subseteq> set ''0123456789abcdef''"
proof (induction k arbitrary: d)
  case 0
  then show ?case by simp
next
  case (Suc k)
  have "d mod 16 < length ''0123456789abcdef''" by simp
  then have "hex_char d \<in> set ''0123456789abcdef''"
    unfolding hex_char_def by (rule nth_mem)
  with Suc show ?case by auto
qed

lemma generate_id_chars: "set (generate_id dg u t) \<subseteq> set ''0123456789abcdef''"
proof -
  have "set (generate_id dg u t) \<subseteq> set (hexdigest (dg (u @ '':'' @ t)))"
    unfolding generate_id_def Let_def by (rule set_take_subset)
  also have "\<dots> \<subseteq> set ''0123456789abcdef''"
    unfolding hexdigest_def by (rule to_hex_chars)
  finally show ?thesis .
qed

lemma starts_with_slash: "starts_with ''/'' s \<longleftrightarrow> (\<exists>r. s = CHR ''/'' # r)"
  by (cases s) auto

lemma file_name_not_absolute: "\<not> starts_with ''/'' (generate_id dg u t @ ''.py'')"
proof (cases "generate_id dg u t")
  case Nil
  then show ?thesis by simp
next
  case (Cons a r)
  then have "a \<in> set ''0123456789abcdef''"
    using generate_id_chars [of dg u t] by auto
  then have "a \<noteq> CHR ''/''" by auto
  with Cons show ?thesis by simp
qed

text \<open>The path of an entry is a fixed prefix, the key and the suffix \<open>.py\<close>.\<close>

lemma script_path_of_eq:
  "script_path_of dg lib u t =
     (if library_path lib = [] \<or> last (library_path lib) = CHR ''/''
      then library_path lib else library_path lib @ ''/'')
     @ generate_id dg u t @ ''.py''"
  by (simp add: script_path_of_def Let_def os_path_join_def file_name_not_absolute)

lemma script_path_of_inj:
  "script_path_of dg lib u t = script_path_of dg lib u' t'
     \<longleftrightarrow> generate_id dg u t = generate_id dg u' t'"
  unfolding script_path_of_eq by simp

lemma find_after_save:
  "find_script dg lib (fst (save dg lib fs u t c)) u t = Some (universal_newlines c)"
  by (simp add: find_script_def save_def Let_def)

lemma save_all_other_keys:
  "(\<forall>(u', t', c') \<in> set ops. generate_id dg u' t' \<noteq> generate_id dg u t)
     \<Longrightarrow> save_all dg lib fs ops (script_path_of dg lib u t) = fs (script_path_of dg lib u t)"
proof (induction ops arbitrary: fs)
  case Nil
  then show ?case by simp
next
  case (Cons op ops)
  obtain u' t' c' where op: "op = (u', t', c')" by (cases op) auto
  from Cons.prems op have ne: "generate_id dg u' t' \<noteq> generate_id dg u t" by simp
  from Cons.prems have rest:
    "\<forall>(u', t', c') \<in> set ops. generate_id dg u' t' \<noteq> generate_id dg u t" by simp
  have "save_all dg lib fs (op # ops) (script_path_of dg lib u t)
          = fst (save dg lib fs u' t' c') (script_path_of dg lib u t)"
    unfolding op using Cons.IH [OF rest] by simp
  also have "\<dots> = fs (script_path_of dg lib u t)"
    using ne by (simp add: save_def Let_def script_path_of_inj)
  finally show ?case .
qed

lemma find_script_reads:
  "find_script dg lib fs u t = map_option universal_newlines (fs (script_path_of dg lib u t))"
  by (simp add: find_script_def Let_def split: option.splits)

text \<open>
  C4, as stated, at a program text that is a single carriage return: \<open>find\<close> after
  \<open>save\<close> returns a line feed, not the text saved.
\<close>

theorem carriage_return_not_round_tripped:
  "find_script demo_md5 demo_lib
     (fst (save demo_md5 demo_lib Map.empty ''https://example.com'' ''Find the title''
             [CHR 0x0D]))
     ''https://example.com'' ''Find the title'' = Some [CHR 0x0A]
   \<and> [CHR 0x0A] \<noteq> [CHR 0x0D]"
  by (simp add: find_after_save)

text \<open>
  C4, amended. For every url \<open>u\<close>, task \<open>t\<close> and program text \<open>c\<close> without a
  carriage return, \<open>find(u, t)\<close> after \<open>save(u, t, c)\<close> and any later saves under other
  keys returns exactly \<open>c\<close>. For every \<open>(u, t)\<close> whose entry is absent at the start
  and under whose key nothing was saved, \<open>find(u, t)\<close> returns absent.
\<close>

theorem library_round_trip:
  "(CHR 0x0D \<notin> set c
      \<and> (\<forall>(u', t', c') \<in> set ops. generate_id dg u' t' \<noteq> generate_id dg u t) \<longrightarrow>
      find_script dg lib (save_all dg lib (fst (save dg lib fs u t c)) ops) u t = Some c)
   \<and> (fs (script_path_of dg lib u t) = None
      \<and> (\<forall>(u', t', c') \<in> set ops. generate_id dg u' t' \<noteq> generate_id dg u t) \<longrightarrow>
      find_script dg lib (save_all dg lib fs ops) u t = None)"
proof (intro conjI impI)
  assume h: "CHR 0x0D \<notin> set c
      \<and> (\<forall>(u', t', c') \<in> set ops. generate_id dg u' t' \<noteq> generate_id dg u t)"
  then have "save_all dg lib (fst (save dg lib fs u t c)) ops (script_path_of dg lib u t)
               = fst (save dg lib fs u t c) (script_path_of dg lib u t)"
    by (intro save_all_other_keys) simp
  then have "find_script dg lib (save_all dg lib (fst (save dg lib fs u t c)) ops) u t
               = find_script dg lib (fst (save dg lib fs u t c)) u t"
    by (simp add: find_script_reads)
  also have "\<dots> = Some c"
    using h by (simp add: find_after_save universal_newlines_no_cr)
  finally show "find_script dg lib (save_all dg lib (fst (save dg lib fs u t c)) ops) u t
                  = Some c" .
next
  assume h: "fs (script_path_of dg lib u t) = None
      \<and> (\<forall>(u', t', c') \<in> set ops. generate_id dg u' t' \<noteq> generate_id dg u t)"
  then have "save_all dg lib fs ops (script_path_of dg lib u t) = None"
    using save_all_other_keys [of ops dg u t lib fs] by simp
  then show "find_script dg lib (save_all dg lib fs ops) u t = None"
    by (simp add: find_script_reads)
qed

lemma to_hex_numeral:
  "to_hex (numeral k) d = to_hex (pred_numeral k) (d div 16) @ [hex_char d]"
proof -
  have "to_hex (Suc (pred_numeral k)) d = to_hex (pred_numeral k) (d div 16) @ [hex_char d]"
    by (rule to_hex.simps(2))
  then show ?thesis by (simp only: numeral_eq_Suc [symmetric])
qed

lemma demo_md5_values:
  "demo_md5 (''https://example.com'' @ '':'' @ ''Find the title'')
     = 210321147251988012006343126523513380104"
  "demo_md5 (''https://example.org'' @ '':'' @ ''Log in'')
     = 316770932894960917991577826305843875250"
  by (simp_all add: demo_md5_def)

lemma demo_hexdigests:
  "hexdigest 210321147251988012006343126523513380104 = ''9e3a6129bbb2fa1e94a8563b42df9d08''"
  "hexdigest 316770932894960917991577826305843875250 = ''ee4fdccdf087cbdd569235a514ef4db2''"
  by (simp_all add: hexdigest_def hex_char_def to_hex_numeral)

lemma demo_ids:
  "generate_id demo_md5 ''https://example.com'' ''Find the title'' = ''9e3a6129bbb2''"
  "generate_id demo_md5 ''https://example.org'' ''Log in'' = ''ee4fdccdf087''"
  unfolding generate_id_def Let_def demo_md5_values demo_hexdigests by simp_all

theorem library_round_trip_witness:
  "CHR 0x0D \<notin> set (''print(1)'' @ [CHR 0x0A])
   \<and> generate_id demo_md5 ''https://example.org'' ''Log in''
        \<noteq> generate_id demo_md5 ''https://example.com'' ''Find the title''
   \<and> find_script demo_md5 demo_lib
        (save_all demo_md5 demo_lib
           (fst (save demo_md5 demo_lib Map.empty ''https://example.com'' ''Find the title''
                   (''print(1)'' @ [CHR 0x0A])))
           [(''https://example.org'', ''Log in'', ''pass'')])
        ''https://example.com'' ''Find the title'' = Some (''print(1)'' @ [CHR 0x0A])
   \<and> Map.empty (script_path_of demo_md5 demo_lib ''https://example.com'' ''Find the title'')
        = (None :: string option)
   \<and> find_script demo_md5 demo_lib
        (save_all demo_md5 demo_lib Map.empty [(''https://example.org'', ''Log in'', ''pass'')])
        ''https://example.com'' ''Find the title'' = None"
proof -
  have ne: "generate_id demo_md5 ''https://example.org'' ''Log in''
              \<noteq> generate_id demo_md5 ''https://example.com'' ''Find the title''"
    unfolding demo_ids by simp
  have cr: "CHR 0x0D \<notin> set (''print(1)'' @ [CHR 0x0A])" by simp
  note rt = library_round_trip [of "''print(1)'' @ [CHR 0x0A]"
      "[(''https://example.org'', ''Log in'', ''pass'')]" demo_md5
      "''https://example.com''" "''Find the title''" demo_lib Map.empty]
  from rt ne cr show ?thesis by simp
qed

section \<open>Script generator: unrecognized actions\<close>

lemma main_steps_loop_append:
  "main_steps_loop i (xs @ ys) steps
     = main_steps_loop (i + length xs) ys (main_steps_loop i xs steps)"
  by (induction xs arbitrary: i steps) simp_all

lemma main_steps_loop_skip:
  assumes "action s \<notin> {''click'', ''type'', ''fill'', ''navigate'', ''scroll''}"
  shows "main_steps_loop i (s # rest) steps = main_steps_loop (i + 1) rest steps"
  using assms by simp

lemma demo_steps_actions:
  "action click_step = ''click''" "action extract_step = ''extract''"
  "action navigate_step = ''navigate''"
  by (simp_all add: click_step_def extract_step_def navigate_step_def step_of_def)

text \<open>
  C8, as stated, at a journey log whose only step has the action kind extract: the loop
  appends no block for the step, and the main steps of the generated program are the
  header line alone, with no placeholder for step 1.
\<close>

theorem extract_step_leaves_no_placeholder:
  "action extract_step \<notin> {''click'', ''type'', ''fill'', ''navigate'', ''scroll''}
   \<and> main_steps_loop 1 [extract_step] [''            # Main execution steps'']
        = [''            # Main execution steps'']
   \<and> generate_main_steps [extract_step] = ''            # Main execution steps''"
  by (simp add: generate_main_steps_def demo_steps_actions)

text \<open>
  C8, amended. Script generation is a total function of the exploration result, and a step
  whose action kind is not click, type, fill, navigate or scroll is skipped: it adds no
  block to the generated program, and the steps after it keep their positions in the
  numbering.
\<close>

theorem unrecognized_step_is_skipped:
  assumes "action s \<notin> {''click'', ''type'', ''fill'', ''navigate'', ''scroll''}"
  shows "main_steps_loop i (before @ s # after) steps
           = main_steps_loop (i + length before + 1) after (main_steps_loop i before steps)
         \<and> generate_main_steps (before @ s # after)
           = join nl (main_steps_loop (length before + 2) after
                        (main_steps_loop 1 before [''            # Main execution steps'']))"
proof -
  have loop: "main_steps_loop j (before @ s # after) acc
                = main_steps_loop (j + length before + 1) after (main_steps_loop j before acc)"
    for j acc
    unfolding main_steps_loop_append main_steps_loop_skip [OF assms] by simp
  have "generate_main_steps (before @ s # after)
          = join nl (main_steps_loop 1 (before @ s # after)
                       [''            # Main execution steps''])"
    by (simp add: generate_main_steps_def)
  also have "\<dots> = join nl (main_steps_loop (length before + 2) after
                        (main_steps_loop 1 before [''            # Main execution steps'']))"
    unfolding loop by (simp add: add.commute)
  finally show ?thesis using loop by simp
qed

theorem unrecognized_step_is_skipped_witness:
  "action extract_step \<notin> {''click'', ''type'', ''fill'', ''navigate'', ''scroll''}
   \<and> main_steps_loop 1 [click_step, extract_step, navigate_step]
        [''            # Main execution steps'']
      = [''            # Main execution steps'', click_block 1 click_step,
         navigate_block 3 navigate_step]"
proof -
  have a: "action extract_step \<notin> {''click'', ''type'', ''fill'', ''navigate'', ''scroll''}"
    by (simp add: demo_steps_actions)
  have "main_steps_loop 1 ([click_step] @ extract_step # [navigate_step])
          [''            # Main execution steps'']
        = main_steps_loop (1 + length [click_step] + 1) [navigate_step]
            (main_steps_loop 1 [click_step] [''            # Main execution steps''])"
    using unrecognized_step_is_skipped [OF a, of 1 "[click_step]" "[navigate_step]"
        "[''            # Main execution steps'']"]
    by blast
  then show ?thesis
    using a by (simp add: demo_steps_actions numeral_3_eq_3)
qed

section \<open>Orchestrator: the cached script and the failed exploration\<close>

lemma execute_script_success:
  assumes "subprocess_run e (ticks w + 1) c = Inr (0, out, err)"
  shows "fst (execute_script e w c) = Inr out"
  using assms by (simp add: execute_script_def Let_def tick_def write_file_def)

lemma execute_cached_success:
  assumes "find_script (md5 e) lib (files w) url task = Some c" and "c \<noteq> []"
    and "subprocess_run e (ticks w + 1) c = Inr (0, out, err)"
  shows "fst (execute e lib w url task) = Inr (PyStr out)"
proof -
  obtain r w1 where x: "execute_script e w c = (r, w1)" by (cases "execute_script e w c")
  with execute_script_success [OF assms(3)] have "r = Inr out" by simp
  with x assms(1,2) show ?thesis by (simp add: execute_def Let_def)
qed

lemma cached_world_find:
  "find_script (md5 demo_env) demo_lib (files cached_world) ''https://example.com''
     ''Find the title'' = Some (''print(1)'' @ [CHR 0x0A])"
  by (simp add: cached_world_def demo_env_def find_after_save)

text \<open>
  C2, evaluated at a library that holds a script for the task and a run that exits with
  code 0 and prints \<open>done\<close>: \<open>execute\<close> returns the captured output itself, a
  \<open>str\<close>, and not an \<open>ExecutionResult\<close> with method SCRIPT.
\<close>

theorem execute_cached_returns_bare_output:
  "find_script (md5 demo_env) demo_lib (files cached_world) ''https://example.com''
     ''Find the title'' = Some (''print(1)'' @ [CHR 0x0A])
   \<and> subprocess_run demo_env 1 (''print(1)'' @ [CHR 0x0A]) = Inr (0, ''done'' @ [CHR 0x0A], [])
   \<and> fst (execute demo_env demo_lib cached_world ''https://example.com'' ''Find the title'')
        = Inr (PyStr (''done'' @ [CHR 0x0A]))"
proof -
  have t: "ticks cached_world = 0" by (simp add: cached_world_def)
  have r: "subprocess_run demo_env (ticks cached_world + 1) (''print(1)'' @ [CHR 0x0A])
             = Inr (0, ''done'' @ [CHR 0x0A], [])"
    by (simp add: demo_env_def)
  have "fst (execute demo_env demo_lib cached_world ''https://example.com'' ''Find the title'')
          = Inr (PyStr (''done'' @ [CHR 0x0A]))"
    using cached_world_find _ r by (rule execute_cached_success) simp
  with cached_world_find r t show ?thesis by simp
qed

text \<open>
  C7. For every url and task on a cache miss, if the exploration engine returns an
  unsuccessful exploration result, \<open>execute\<close> returns an \<open>ExecutionResult\<close> with
  success false, method EXPLORATION_FAILED, no result, and the error the engine reported.
\<close>

theorem exploration_failure_is_returned:
  assumes "find_script (md5 e) lib (files w) url task = None"
    and "explore_task e (ticks w) url task = Inr exploration"
    and "\<not> success exploration"
  shows "fst (execute e lib w url task) =
           Inr (PyExecutionResult
                  \<lparr> er_success = False, er_method = ''EXPLORATION_FAILED'', result = None,
                    er_steps = None, duration = None, cost = None,
                    er_error = error exploration, script_path = None, actions = None \<rparr>)"
  using assms by (simp add: execute_def explore_and_route_def Let_def)

theorem exploration_failure_is_returned_witness:
  "find_script (md5 demo_env) demo_lib (files empty_world) ''https://example.com''
     ''Find the title'' = None
   \<and> explore_task demo_env (ticks empty_world) ''https://example.com'' ''Find the title''
        = Inr failed_exploration
   \<and> \<not> success failed_exploration
   \<and> fst (execute demo_env demo_lib empty_world ''https://example.com'' ''Find the title'') =
        Inr (PyExecutionResult
               \<lparr> er_success = False, er_method = ''EXPLORATION_FAILED'', result = None,
                 er_steps = None, duration = None, cost = None,
                 er_error = Some ''browser crashed'', script_path = None, actions = None \<rparr>)"
proof -
  have f: "find_script (md5 demo_env) demo_lib (files empty_world) ''https://example.com''
             ''Find the title'' = None"
    by (simp add: find_script_reads empty_world_def)
  have x: "explore_task demo_env (ticks empty_world) ''https://example.com'' ''Find the title''
             = Inr failed_exploration"
    by (simp add: demo_env_def)
  have s: "\<not> success failed_exploration" by (simp add: failed_exploration_def)
  have er: "error failed_exploration = Some ''browser crashed''"
    by (simp add: failed_exploration_def)
  from exploration_failure_is_returned [OF f x s] f x s show ?thesis
    unfolding er by simp
qed

end
